theory Spec2Isabelle
  imports Main
begin

section \<open>Values shared by the guard and the providers\<close>

text \<open>
  A JavaScript error object; the code reads only its \<open>message\<close>
  (\<^verbatim>\<open>error.message\<close>, \<^verbatim>\<open>new Error("...")\<close>).
\<close>

datatype js_error = Error (message: string)

text \<open>
  The settled state of an awaited promise: \<^verbatim>\<open>await p\<close> yields the value of a
  resolved promise and rethrows the reason of a rejected one.
\<close>

datatype 'a outcome = Returned 'a | Thrown js_error

text \<open>
  A value that may be \<^verbatim>\<open>null\<close> or \<^verbatim>\<open>undefined\<close>
  (\<^verbatim>\<open>Profile | null | undefined\<close>, \<^verbatim>\<open>any\<close>).
\<close>

datatype 'a nullable = Null | Undefined | Value 'a

text \<open>
  What the code does to the world besides returning: lines written to the console, calls
  to the router, calls to the backend. A function returns its result together with the
  events it emitted, in order; an \<^verbatim>\<open>async\<close> function that rejects returns
  \<open>Inl\<close> of the reason.
\<close>

datatype logged = LogString string | LogError js_error

datatype backend_call =
    GetSession
  | ProfilesSingle "string option"
  | SignInWithPassword string string

datatype event =
    ConsoleLog logged
  | RouterRefresh
  | BackendCall backend_call

text \<open>
  \<^verbatim>\<open>interface ContextI\<close> of the auth provider. \<open>'p\<close> is the row type
  \<^verbatim>\<open>Profile\<close>, generated from the database schema; \<open>'a\<close> stands for
  \<^verbatim>\<open>any\<close>. The fields \<open>user\<close>, \<open>error\<close> and \<open>signInWithEmail\<close>
  share their names with later constants and are written \<open>contextI.user\<close>,
  \<open>contextI.error\<close>, \<open>contextI.signInWithEmail\<close> below.
\<close>

record ('p, 'a) contextI =
  user :: "'p nullable"
  error :: "'a nullable"
  isLoading :: bool
  mutate :: "'a nullable"
  signOut :: "(js_error + unit) \<times> event list"
  signInWithGithub :: "(js_error + unit) \<times> event list"
  signInWithEmail :: "string \<Rightarrow> string \<Rightarrow> (js_error + string option) \<times> event list"

text \<open>
  The backend's answers have the shape \<^verbatim>\<open>{ data, error }\<close>; \<open>None\<close> is
  \<^verbatim>\<open>null\<close>.
\<close>

record 'd response =
  data :: 'd
  error :: "js_error option"

text \<open>
  \<^verbatim>\<open>Session\<close> of the backend library: the fields the code reads
  (\<^verbatim>\<open>access_token\<close>, \<^verbatim>\<open>user.id\<close>). The field \<^verbatim>\<open>id\<close> is named
  \<open>user_id\<close> here, \<open>id\<close> being the identity function of HOL.
\<close>

record user =
  user_id :: string

record session =
  access_token :: string
  user :: user

text \<open>The \<^verbatim>\<open>data\<close> part of the answer of \<^verbatim>\<open>auth.getSession()\<close>.\<close>

record session_data =
  session :: "session option"

section \<open>The edge request guard (\<^verbatim>\<open>src/middleware.ts\<close>)\<close>

text \<open>
  A URL as its components. Assigning \<^verbatim>\<open>url.pathname\<close> replaces the one
  component.
\<close>

record url =
  protocol :: string
  username :: string
  password :: string
  hostname :: string
  port :: string
  pathname :: string
  search :: string
  hash :: string

text \<open>
  The request: \<^verbatim>\<open>req.url\<close> (parsed by \<^verbatim>\<open>new URL(req.url)\<close>) and
  \<^verbatim>\<open>req.nextUrl\<close>.
\<close>

record next_request =
  url :: url
  nextUrl :: url

text \<open>\<^verbatim>\<open>NextResponse.next()\<close> and \<^verbatim>\<open>NextResponse.redirect(url)\<close>.\<close>

datatype next_response = Next | Redirect url

text \<open>
  \<^verbatim>\<open>middleware(req)\<close>. The first argument is the settled state of
  \<^verbatim>\<open>supabase.auth.getSession()\<close>; the function has no \<^verbatim>\<open>try\<close>, so a
  rejection leaves it as a rejection (\<open>Inl\<close>).
\<close>

definition middleware ::
  "session_data response outcome \<Rightarrow> next_request \<Rightarrow> (js_error + next_response) \<times> event list" where
  "middleware getSession req =
     (let res = Next;
          p = pathname (nextUrl req)
      in case getSession of
           Thrown e \<Rightarrow> (Inl e, [BackendCall GetSession])
         | Returned r \<Rightarrow>
             (let s = session (data r)
              in if s = None \<and> p = ''/'' then
                   (let u = url req;
                        u = u\<lparr>pathname := ''/login''\<rparr>
                    in (Inr (Redirect u), [BackendCall GetSession]))
                 else if s \<noteq> None \<and> p = ''/login'' then
                   (let u = nextUrl req;
                        u = u\<lparr>pathname := ''/''\<rparr>
                    in (Inr (Redirect u),
                        [BackendCall GetSession,
                         ConsoleLog (LogString ''You are already logged In!'')]))
                 else (Inr res, [BackendCall GetSession])))"

section \<open>The auth provider (\<^verbatim>\<open>SupabaseAuthProvider.tsx\<close>)\<close>

text \<open>
  \<^verbatim>\<open>getUser\<close>. The first argument is the backend's answer to
  \<^verbatim>\<open>from("profiles").select("*").eq("id", key).single()\<close> for each key; the key is
  \<^verbatim>\<open>serverSession?.user?.id\<close>, \<^verbatim>\<open>undefined\<close> (\<open>None\<close>) without a session.
\<close>

definition getUser ::
  "(string option \<Rightarrow> 'p option response outcome) \<Rightarrow> session option
     \<Rightarrow> (js_error + 'p option) \<times> event list" where
  "getUser single serverSession =
     (let key = map_option (\<lambda>s. user_id (user s)) serverSession
      in case single key of
           Thrown e \<Rightarrow> (Inl e, [BackendCall (ProfilesSingle key)])
         | Returned r \<Rightarrow>
             (case error r of
                Some e \<Rightarrow>
                  (Inr None, [BackendCall (ProfilesSingle key), ConsoleLog (LogError e)])
              | None \<Rightarrow> (Inr (data r), [BackendCall (ProfilesSingle key)])))"

text \<open>
  \<^verbatim>\<open>signInWithEmail(email, password)\<close>. The first argument is the backend's
  \<^verbatim>\<open>auth.signInWithPassword\<close>; the parameter \<^verbatim>\<open>password\<close> is written \<open>pw\<close>.
\<close>

definition signInWithEmail ::
  "(string \<Rightarrow> string \<Rightarrow> 'd response outcome) \<Rightarrow> string \<Rightarrow> string
     \<Rightarrow> (js_error + string option) \<times> event list" where
  "signInWithEmail signInWithPassword email pw =
     (case signInWithPassword email pw of
        Thrown e \<Rightarrow> (Inl e, [BackendCall (SignInWithPassword email pw)])
      | Returned r \<Rightarrow>
          (case error r of
             Some e \<Rightarrow> (Inr (Some (message e)), [BackendCall (SignInWithPassword email pw)])
           | None \<Rightarrow> (Inr None, [BackendCall (SignInWithPassword email pw)])))"

text \<open>
  The callback handed to \<^verbatim>\<open>auth.onAuthStateChange\<close>, for a provider rendered with
  \<open>serverSession\<close>. \<^verbatim>\<open>x?.access_token\<close> is \<^verbatim>\<open>undefined\<close> (\<open>None\<close>) when
  \<open>x\<close> is \<^verbatim>\<open>null\<close> or \<^verbatim>\<open>undefined\<close>.
\<close>

definition onAuthStateChange_callback ::
  "session option \<Rightarrow> string \<Rightarrow> session option \<Rightarrow> event list" where
  "onAuthStateChange_callback serverSession ev sess =
     (if map_option access_token sess \<noteq> map_option access_token serverSession
      then [RouterRefresh] else [])"

section \<open>Contexts and their hooks\<close>

text \<open>
  \<^verbatim>\<open>createContext(defaultValue)\<close>, and \<^verbatim>\<open>useContext\<close>: the value of the nearest
  enclosing \<^verbatim>\<open>Context.Provider\<close>, the default value where there is none (\<open>None\<close>).
\<close>

datatype 'a react_context = createContext (defaultValue: 'a)

definition useContext :: "'a react_context \<Rightarrow> 'a option \<Rightarrow> 'a" where
  "useContext c provider = (case provider of None \<Rightarrow> defaultValue c | Some v \<Rightarrow> v)"

text \<open>
  The context of \<^verbatim>\<open>SupabaseProvider.tsx\<close>, of type
  \<^verbatim>\<open>SupabaseContext | undefined\<close> with \<^verbatim>\<open>undefined\<close> (\<open>None\<close>) as default.
  \<open>'c\<close> is the type of the client handle.
\<close>

record 'c supabaseContext =
  supabase :: 'c

definition SupabaseProvider_Context :: "'c supabaseContext option react_context" where
  "SupabaseProvider_Context = createContext None"

text \<open>
  \<^verbatim>\<open>useSupabase\<close>. The argument is the value \<^verbatim>\<open>{ supabase }\<close> that the nearest
  enclosing \<^verbatim>\<open>SupabaseProvider\<close> provides, \<open>None\<close> outside every such provider.
\<close>

definition useSupabase :: "'c supabaseContext option \<Rightarrow> js_error + 'c supabaseContext" where
  "useSupabase provider =
     (let context = useContext SupabaseProvider_Context (map_option Some provider)
      in case context of
           None \<Rightarrow> Inl (Error ''useSupabase must be used inside SupabaseProvider'')
         | Some c \<Rightarrow> Inr c)"

text \<open>The default value of the auth context, and the context.\<close>

definition SupabaseAuthProvider_default :: "('p, 'a) contextI" where
  "SupabaseAuthProvider_default =
     \<lparr>contextI.user = Null,
      contextI.error = Null,
      isLoading = True,
      mutate = Null,
      signOut = (Inr (), []),
      signInWithGithub = (Inr (), []),
      contextI.signInWithEmail = (\<lambda>email pw. (Inr None, []))\<rparr>"

definition SupabaseAuthProvider_Context :: "('p, 'a) contextI option react_context" where
  "SupabaseAuthProvider_Context = createContext (Some SupabaseAuthProvider_default)"

text \<open>
  \<^verbatim>\<open>useAuth\<close>. The argument is the object \<^verbatim>\<open>exposed\<close> that the nearest
  enclosing \<^verbatim>\<open>SupabaseAuthProvider\<close> provides, \<open>None\<close> outside every such provider.
\<close>

definition useAuth :: "('p, 'a) contextI option \<Rightarrow> js_error + ('p, 'a) contextI" where
  "useAuth provider =
     (let context = useContext SupabaseAuthProvider_Context (map_option Some provider)
      in case context of
           None \<Rightarrow> Inl (Error ''useAuth must be used inside SupabaseAuthProvider'')
         | Some c \<Rightarrow> Inr c)"

section \<open>Concrete inputs\<close>

definition example_url :: "string \<Rightarrow> url" where
  "example_url p =
     \<lparr>protocol = ''https:'', username = [], password = [], hostname = ''example.com'',
      port = [], pathname = p, search = ''?next=1'', hash = []\<rparr>"

definition example_request :: "string \<Rightarrow> next_request" where
  "example_request p = \<lparr>url = example_url p, nextUrl = example_url p\<rparr>"

definition example_session :: session where
  "example_session = \<lparr>access_token = ''token-1'', user = \<lparr>user_id = ''user-1''\<rparr>\<rparr>"

definition no_session :: "session_data response" where
  "no_session = \<lparr>data = \<lparr>session = None\<rparr>, error = None\<rparr>"

definition with_session :: "session_data response" where
  "with_session = \<lparr>data = \<lparr>session = Some example_session\<rparr>, error = None\<rparr>"

definition failed_session :: "session_data response" where
  "failed_session = \<lparr>data = \<lparr>session = None\<rparr>, error = Some (Error ''invalid refresh token'')\<rparr>"

text \<open>
  A row of the \<^verbatim>\<open>profiles\<close> table, and a backend holding the one row of
  \<open>user-1\<close>: \<^verbatim>\<open>single()\<close> answers with an error for every other key.
\<close>

record profile_row =
  full_name :: "string option"
  avatar_url :: "string option"

definition example_profiles :: "string option \<Rightarrow> profile_row option response outcome" where
  "example_profiles key =
     (if key = Some ''user-1''
      then Returned \<lparr>data = Some \<lparr>full_name = Some ''Ada'', avatar_url = None\<rparr>, error = None\<rparr>
      else Returned \<lparr>data = None, error = Some (Error ''no rows returned'')\<rparr>)"

text \<open>A backend that accepts the one password \<open>secret\<close>.\<close>

definition example_signIn :: "string \<Rightarrow> string \<Rightarrow> unit response outcome" where
  "example_signIn email pw =
     (if pw = ''secret''
      then Returned \<lparr>data = (), error = None\<rparr>
      else Returned \<lparr>data = (), error = Some (Error ''Invalid login credentials'')\<rparr>)"

section \<open>Properties of the guard\<close>

text \<open>
  C1. A request whose path is the root path \<open>/\<close> and whose session lookup yields no
  session is answered by a redirect whose target path is \<open>/login\<close>.
\<close>

theorem middleware_root_no_session:
  assumes "pathname (nextUrl req) = ''/''"
    and "session (data r) = None"
  shows "\<exists>u. fst (middleware (Returned r) req) = Inr (Redirect u) \<and> pathname u = ''/login''"
  using assms by (simp add: middleware_def)

theorem middleware_root_no_session_witness:
  "pathname (nextUrl (example_request ''/'')) = ''/'' \<and> session (data no_session) = None
   \<and> (\<exists>u. fst (middleware (Returned no_session) (example_request ''/'')) = Inr (Redirect u)
          \<and> pathname u = ''/login'')"
  using middleware_root_no_session [of "example_request ''/''" no_session]
  by (simp add: example_request_def example_url_def no_session_def)

text \<open>
  C2. A request whose path is \<open>/login\<close> and whose session lookup yields a session is
  answered by a redirect whose target path is \<open>/\<close>.
\<close>

theorem middleware_login_with_session:
  assumes "pathname (nextUrl req) = ''/login''"
    and "session (data r) = Some s"
  shows "\<exists>u. fst (middleware (Returned r) req) = Inr (Redirect u) \<and> pathname u = ''/''"
  using assms by (simp add: middleware_def)

theorem middleware_login_with_session_witness:
  "pathname (nextUrl (example_request ''/login'')) = ''/login''
   \<and> session (data with_session) = Some example_session
   \<and> (\<exists>u. fst (middleware (Returned with_session) (example_request ''/login''))
              = Inr (Redirect u) \<and> pathname u = ''/'')"
  using middleware_login_with_session
          [of "example_request ''/login''" with_session example_session]
  by (simp add: example_request_def example_url_def with_session_def)

text \<open>
  C3. For every combination of path and session other than (root path, no session) and
  (\<open>/login\<close>, session present), the guard returns the pass-through response
  \<^verbatim>\<open>NextResponse.next()\<close>: no redirect is produced for any other path, and nothing
  is written to the console.
\<close>

theorem middleware_pass_through:
  assumes "\<not> (session (data r) = None \<and> pathname (nextUrl req) = ''/'')"
    and "\<not> (session (data r) \<noteq> None \<and> pathname (nextUrl req) = ''/login'')"
  shows "middleware (Returned r) req = (Inr Next, [BackendCall GetSession])"
  using assms by (auto simp add: middleware_def)

theorem middleware_pass_through_witness:
  "middleware (Returned no_session) (example_request ''/login'')
     = (Inr Next, [BackendCall GetSession])
   \<and> middleware (Returned with_session) (example_request ''/'')
     = (Inr Next, [BackendCall GetSession])
   \<and> middleware (Returned no_session) (example_request ''/settings'')
     = (Inr Next, [BackendCall GetSession])
   \<and> middleware (Returned with_session) (example_request ''/settings'')
     = (Inr Next, [BackendCall GetSession])"
  using middleware_pass_through [of no_session "example_request ''/login''"]
    middleware_pass_through [of with_session "example_request ''/''"]
    middleware_pass_through [of no_session "example_request ''/settings''"]
    middleware_pass_through [of with_session "example_request ''/settings''"]
  by (simp add: example_request_def example_url_def no_session_def with_session_def)

text \<open>
  C4, as the claim states it, fails: when the session lookup throws on a root-path request,
  the guard rejects with the thrown error, while a lookup that returns no session makes it
  redirect to \<open>/login\<close>.
\<close>

theorem middleware_lookup_throws_counterexample:
  "fst (middleware (Thrown (Error ''fetch failed'')) (example_request ''/''))
     = Inl (Error ''fetch failed'')
   \<and> fst (middleware (Returned no_session) (example_request ''/''))
     = Inr (Redirect (example_url ''/login''))
   \<and> fst (middleware (Thrown (Error ''fetch failed'')) (example_request ''/''))
     \<noteq> fst (middleware (Returned no_session) (example_request ''/''))"
  by (simp add: middleware_def example_request_def example_url_def no_session_def)

text \<open>
  C4, amended. When the session lookup returns an error object, its session being null,
  the guard behaves exactly as when the lookup returns no session, and a root-path request
  is redirected to \<open>/login\<close>. When the lookup throws, the guard rejects with the thrown
  error and produces no response.
\<close>

theorem middleware_lookup_fails:
  assumes "error r \<noteq> None"
    and "session (data r) = None"
  shows "middleware (Returned r) req
           = middleware (Returned \<lparr>data = \<lparr>session = None\<rparr>, error = None\<rparr>) req
         \<and> (pathname (nextUrl req) = ''/'' \<longrightarrow>
              (\<exists>u. fst (middleware (Returned r) req) = Inr (Redirect u)
                   \<and> pathname u = ''/login''))
         \<and> middleware (Thrown e) req = (Inl e, [BackendCall GetSession])"
  using assms by (simp add: middleware_def)

theorem middleware_lookup_fails_witness:
  "error failed_session \<noteq> None \<and> session (data failed_session) = None
   \<and> pathname (nextUrl (example_request ''/'')) = ''/''
   \<and> middleware (Returned failed_session) (example_request ''/'')
       = middleware (Returned \<lparr>data = \<lparr>session = None\<rparr>, error = None\<rparr>) (example_request ''/'')
   \<and> (\<exists>u. fst (middleware (Returned failed_session) (example_request ''/''))
              = Inr (Redirect u) \<and> pathname u = ''/login'')
   \<and> middleware (Thrown (Error ''fetch failed'')) (example_request ''/'')
       = (Inl (Error ''fetch failed''), [BackendCall GetSession])"
proof -
  have h1: "error failed_session \<noteq> None"
    by (simp add: failed_session_def)
  have h2: "session (data failed_session) = None"
    by (simp add: failed_session_def)
  have h3: "pathname (nextUrl (example_request ''/'')) = ''/''"
    by (simp add: example_request_def example_url_def)
  show ?thesis
    using h1 h2 h3
      middleware_lookup_fails
        [OF h1 h2, of "example_request ''/''" "Error ''fetch failed''"]
    by blast
qed

text \<open>
  C9. Whenever the guard produces a redirect, the target is the request's URL with only
  the pathname replaced: \<^verbatim>\<open>req.url\<close> with pathname \<open>/login\<close>, or
  \<^verbatim>\<open>req.nextUrl\<close> with pathname \<open>/\<close>. Protocol, credentials, host, port, query
  string and fragment are those of the request.
\<close>

theorem middleware_redirect_target:
  assumes "fst (middleware getSession req) = Inr (Redirect u)"
  shows "\<exists>src. (src = url req \<and> pathname u = ''/login''
                  \<or> src = nextUrl req \<and> pathname u = ''/'')
           \<and> u = src\<lparr>pathname := pathname u\<rparr>
           \<and> protocol u = protocol src \<and> username u = username src
           \<and> password u = password src \<and> hostname u = hostname src
           \<and> port u = port src \<and> search u = search src \<and> hash u = hash src"
proof (cases getSession)
  case (Thrown e)
  with assms show ?thesis
    by (simp add: middleware_def)
next
  case (Returned r)
  show ?thesis
  proof (cases "session (data r) = None \<and> pathname (nextUrl req) = ''/''")
    case True
    with assms Returned have "u = (url req)\<lparr>pathname := ''/login''\<rparr>"
      by (simp add: middleware_def)
    then show ?thesis
      by (intro exI [of _ "url req"]) simp
  next
    case False
    with assms Returned
    have "session (data r) \<noteq> None \<and> pathname (nextUrl req) = ''/login''"
      by (auto simp add: middleware_def split: if_splits)
    with assms Returned False have "u = (nextUrl req)\<lparr>pathname := ''/''\<rparr>"
      by (auto simp add: middleware_def)
    then show ?thesis
      by (intro exI [of _ "nextUrl req"]) simp
  qed
qed

theorem middleware_redirect_target_witness:
  "fst (middleware (Returned with_session) (example_request ''/login''))
     = Inr (Redirect (example_url ''/''))
   \<and> (\<exists>src. (src = url (example_request ''/login'') \<and> pathname (example_url ''/'') = ''/login''
               \<or> src = nextUrl (example_request ''/login'') \<and> pathname (example_url ''/'') = ''/'')
           \<and> example_url ''/'' = src\<lparr>pathname := pathname (example_url ''/'')\<rparr>
           \<and> protocol (example_url ''/'') = protocol src
           \<and> username (example_url ''/'') = username src
           \<and> password (example_url ''/'') = password src
           \<and> hostname (example_url ''/'') = hostname src
           \<and> port (example_url ''/'') = port src
           \<and> search (example_url ''/'') = search src
           \<and> hash (example_url ''/'') = hash src)"
proof -
  have h: "fst (middleware (Returned with_session) (example_request ''/login''))
             = Inr (Redirect (example_url ''/''))"
    by (simp add: middleware_def example_request_def example_url_def with_session_def)
  show ?thesis
    using h middleware_redirect_target [OF h] by simp
qed

section \<open>Properties of the auth provider\<close>

text \<open>
  C5. When the single-row lookup on the profiles table returns an error, \<open>getUser\<close>
  resolves to \<^verbatim>\<open>null\<close> and the error has been logged; when the lookup returns
  without an error, \<open>getUser\<close> resolves to the fetched row and logs nothing.
\<close>

theorem getUser_error_or_row:
  assumes "single (map_option (\<lambda>s. user_id (user s)) serverSession) = Returned r"
  shows "(\<forall>e. error r = Some e \<longrightarrow>
            fst (getUser single serverSession) = Inr None
            \<and> ConsoleLog (LogError e) \<in> set (snd (getUser single serverSession)))
         \<and> (error r = None \<longrightarrow>
            fst (getUser single serverSession) = Inr (data r)
            \<and> (\<forall>l. ConsoleLog l \<notin> set (snd (getUser single serverSession))))"
  using assms by (simp add: getUser_def)

theorem getUser_error_or_row_witness:
  "fst (getUser example_profiles None) = Inr None
   \<and> ConsoleLog (LogError (Error ''no rows returned'')) \<in> set (snd (getUser example_profiles None))
   \<and> fst (getUser example_profiles (Some example_session))
       = Inr (Some \<lparr>full_name = Some ''Ada'', avatar_url = None\<rparr>)
   \<and> (\<forall>l. ConsoleLog l \<notin> set (snd (getUser example_profiles (Some example_session))))"
proof -
  have h1: "example_profiles (map_option (\<lambda>s. user_id (user s)) None)
              = Returned \<lparr>data = None, error = Some (Error ''no rows returned'')\<rparr>"
    by (simp add: example_profiles_def)
  have h2: "example_profiles (map_option (\<lambda>s. user_id (user s)) (Some example_session))
              = Returned \<lparr>data = Some \<lparr>full_name = Some ''Ada'', avatar_url = None\<rparr>,
                          error = None\<rparr>"
    by (simp add: example_profiles_def example_session_def)
  show ?thesis
    using getUser_error_or_row [of example_profiles None, OF h1]
      getUser_error_or_row [of example_profiles "Some example_session", OF h2]
    by simp
qed

text \<open>
  C6. \<open>signInWithEmail\<close> returns the message of the backend's error when
  \<^verbatim>\<open>signInWithPassword\<close> returns an error, and \<^verbatim>\<open>null\<close> when it succeeds; in
  every case it calls the backend exactly once.
\<close>

theorem signInWithEmail_result:
  "snd (signInWithEmail signInWithPassword email pw)
     = [BackendCall (SignInWithPassword email pw)]
   \<and> (\<forall>r e. signInWithPassword email pw = Returned r \<and> error r = Some e \<longrightarrow>
          fst (signInWithEmail signInWithPassword email pw) = Inr (Some (message e)))
   \<and> (\<forall>r. signInWithPassword email pw = Returned r \<and> error r = None \<longrightarrow>
          fst (signInWithEmail signInWithPassword email pw) = Inr None)"
  by (simp add: signInWithEmail_def split: outcome.splits option.splits)

theorem signInWithEmail_result_witness:
  "signInWithEmail example_signIn ''ada@example.com'' ''guess''
     = (Inr (Some ''Invalid login credentials''),
        [BackendCall (SignInWithPassword ''ada@example.com'' ''guess'')])
   \<and> signInWithEmail example_signIn ''ada@example.com'' ''secret''
     = (Inr None, [BackendCall (SignInWithPassword ''ada@example.com'' ''secret'')])"
proof -
  have h1: "example_signIn ''ada@example.com'' ''guess''
              = Returned \<lparr>data = (), error = Some (Error ''Invalid login credentials'')\<rparr>"
    by (simp add: example_signIn_def)
  have h2: "example_signIn ''ada@example.com'' ''secret''
              = Returned \<lparr>data = (), error = None\<rparr>"
    by (simp add: example_signIn_def)
  show ?thesis
    using h1 h2
      signInWithEmail_result [of example_signIn "''ada@example.com''" "''guess''"]
      signInWithEmail_result [of example_signIn "''ada@example.com''" "''secret''"]
    by (simp add: prod_eq_iff)
qed

text \<open>
  C7, as the claim states it, fails: a notification that carries the access token of the
  server session (here the initial one) triggers no refresh.
\<close>

theorem onAuthStateChange_same_token_counterexample:
  "RouterRefresh \<notin> set (onAuthStateChange_callback (Some example_session)
                           ''INITIAL_SESSION'' (Some example_session))"
  by (simp add: onAuthStateChange_callback_def)

text \<open>
  C7, amended. A notification delivered to the callback triggers a page refresh
  (\<^verbatim>\<open>router.refresh\<close>) exactly when the access token of the notified session differs
  from that of the server session, an absent session counting as an absent token; the
  callback does nothing else.
\<close>

theorem onAuthStateChange_refresh_iff:
  "(RouterRefresh \<in> set (onAuthStateChange_callback serverSession ev sess)
      \<longleftrightarrow> map_option access_token sess \<noteq> map_option access_token serverSession)
   \<and> set (onAuthStateChange_callback serverSession ev sess) \<subseteq> {RouterRefresh}"
  by (auto simp add: onAuthStateChange_callback_def)

theorem onAuthStateChange_refresh_iff_witness:
  "RouterRefresh \<in> set (onAuthStateChange_callback (Some example_session) ''SIGNED_OUT'' None)
   \<and> RouterRefresh \<notin> set (onAuthStateChange_callback None ''INITIAL_SESSION'' None)"
  using onAuthStateChange_refresh_iff [of "Some example_session" "''SIGNED_OUT''" None]
    onAuthStateChange_refresh_iff [of None "''INITIAL_SESSION''" None]
  by simp

text \<open>
  C8. The profile fetch is idempotent: against the same backend, two invocations of
  \<open>getUser\<close> under sessions with the same user id resolve to the same row (and emit the
  same events).
\<close>

theorem getUser_idempotent:
  assumes "map_option (\<lambda>s. user_id (user s)) s1 = map_option (\<lambda>s. user_id (user s)) s2"
  shows "getUser single s1 = getUser single s2"
  using assms by (simp add: getUser_def)

theorem getUser_idempotent_witness:
  "getUser example_profiles (Some example_session)
     = getUser example_profiles (Some (example_session\<lparr>access_token := ''token-2''\<rparr>))
   \<and> fst (getUser example_profiles (Some example_session))
     = Inr (Some \<lparr>full_name = Some ''Ada'', avatar_url = None\<rparr>)"
proof -
  have h: "map_option (\<lambda>s. user_id (user s)) (Some example_session)
             = map_option (\<lambda>s. user_id (user s))
                 (Some (example_session\<lparr>access_token := ''token-2''\<rparr>))"
    by simp
  have "fst (getUser example_profiles (Some example_session))
          = Inr (Some \<lparr>full_name = Some ''Ada'', avatar_url = None\<rparr>)"
    by (simp add: getUser_def example_profiles_def example_session_def)
  then show ?thesis
    using getUser_idempotent
            [of "Some example_session" "Some (example_session\<lparr>access_token := ''token-2''\<rparr>)"
                example_profiles, OF h]
    by simp
qed

section \<open>Properties of the hooks\<close>

text \<open>
  C10. \<open>useAuth\<close> never throws: the auth context has a default value that is not
  \<^verbatim>\<open>undefined\<close> (user \<^verbatim>\<open>null\<close>, \<open>isLoading\<close> true, sign-in and sign-out
  functions that do nothing), so the value read from the context is never
  \<^verbatim>\<open>undefined\<close>, and outside a \<^verbatim>\<open>SupabaseAuthProvider\<close> \<open>useAuth\<close> returns that
  default. \<open>useSupabase\<close> outside its provider throws.
\<close>

theorem useAuth_never_throws:
  "(\<exists>c. useAuth provider = Inr c)
   \<and> useContext SupabaseAuthProvider_Context (map_option Some provider) \<noteq> None
   \<and> useAuth None = Inr SupabaseAuthProvider_default
   \<and> contextI.user SupabaseAuthProvider_default = Null
   \<and> isLoading SupabaseAuthProvider_default
   \<and> signOut SupabaseAuthProvider_default = (Inr (), [])
   \<and> signInWithGithub SupabaseAuthProvider_default = (Inr (), [])
   \<and> contextI.signInWithEmail SupabaseAuthProvider_default email pw = (Inr None, [])
   \<and> useSupabase None = Inl (Error ''useSupabase must be used inside SupabaseProvider'')"
  by (cases provider)
    (simp_all add: useAuth_def useSupabase_def useContext_def SupabaseAuthProvider_Context_def
       SupabaseProvider_Context_def SupabaseAuthProvider_default_def)

end
